theory Spec2Isabelle
  imports Main
begin

section \<open>Data model\<close>

text \<open>
  The subscription entitlement engine of EdufleetV2
  (\<^verbatim>\<open>src/server/controllers/subscriptionController.ts\<close>) works on three Mongoose
  collections: subscription plans, users (each with an embedded subscription
  sub-document) and subscription change requests. Object ids are natural numbers,
  dates are milliseconds since the epoch (what \<^verbatim>\<open>Date.getTime()\<close> returns), every
  JavaScript number that the code stores is an integer here, and an optional field
  is an \<open>option\<close>. In the stored user a missing subscription is \<open>None\<close>; what a
  handler reads for it is described with \<open>findUserById\<close>.
\<close>

datatype sub_status = Active | Inactive | Suspended | Expired

datatype payment_status = PaymentPending | PaymentCompleted | PaymentFailed

datatype user_role = Guest | Institute | Admin | Teacher | Vendor

datatype request_type = Upgrade | Downgrade | Renewal

datatype request_status = Pending | Approved | Rejected

record plan_features =
  maxListings :: int
  maxJobPosts :: int
  maxBrowsesPerMonth :: int
  dataDelayDays :: int
  teacherDataDelayDays :: int
  canAdvertiseVehicles :: bool
  instantVehicleAlerts :: bool
  instantJobAlerts :: bool

record plan_doc =
  displayName :: string
  price :: int
  duration :: int
  features :: plan_features
  isActive :: bool

record subscription_doc =
  planId :: "nat option"
  status :: sub_status
  paymentStatus :: payment_status
  startDate :: "int option"
  endDate :: "int option"
  listingsUsed :: int
  listingsLimit :: int
  jobPostsUsed :: int
  jobPostsLimit :: int
  browseCount :: int
  browseCountLimit :: int
  lastBrowseReset :: "int option"
  subNotes :: string

record user_doc =
  role :: user_role
  createdAt :: int
  subscription :: "subscription_doc option"

record request_doc =
  requestId :: nat
  userId :: nat
  currentPlanId :: nat
  requestedPlanId :: nat
  requestType :: request_type
  requestStatus :: request_status
  adminNotes :: "string option"
  userNotes :: "string option"
  updatedAt :: "int option"

record db =
  users :: "nat \<rightharpoonup> user_doc"
  plans :: "nat \<rightharpoonup> plan_doc"
  requests :: "request_doc list"

text \<open>
  A handler answers with an HTTP status and either an error message
  (\<^verbatim>\<open>res.status(c).json({ error })\<close>) or a JSON body.
\<close>

datatype 'a response = HttpError nat string | Json nat 'a

record limit_body =
  allowed :: bool
  remaining :: int
  limitReached :: bool
  subscriptionOut :: "subscription_doc option"
  message :: "string option"

record count_body =
  success :: bool
  counterOut :: "int option"
  countMessage :: string

record visibility_body =
  visible :: bool
  delayHours :: int
  availableAt :: int
  visSubscription :: "subscription_doc option"

record permission_body =
  permAllowed :: bool
  permSubscription :: "subscription_doc option"

record transition_result =
  valid :: bool
  error :: "string option"

section \<open>Helpers\<close>

text \<open>JavaScript's \<^verbatim>\<open>a || b\<close> on numbers: \<open>0\<close> is falsy.\<close>

definition or_else :: "int \<Rightarrow> int \<Rightarrow> int" where
  "or_else a b = (if a = 0 then b else a)"

text \<open>Template literals print numbers in decimal.\<close>

function show_nat :: "nat \<Rightarrow> string" where
  "show_nat n =
     (if n < 10 then [char_of (48 + n)]
      else show_nat (n div 10) @ [char_of (48 + n mod 10)])"
  by pat_completeness auto
termination
  by (relation "measure id") auto

declare show_nat.simps [simp del]

definition show_int :: "int \<Rightarrow> string" where
  "show_int i = (if i < 0 then CHR ''-'' # show_nat (nat (- i)) else show_nat (nat i))"

fun status_str :: "sub_status \<Rightarrow> string" where
  "status_str Active = ''active''"
| "status_str Inactive = ''inactive''"
| "status_str Suspended = ''suspended''"
| "status_str Expired = ''expired''"

definition msPerDay :: int where
  "msPerDay = 1000 * 60 * 60 * 24"

definition msPerHour :: int where
  "msPerHour = 60 * 60 * 1000"

text \<open>
  \<^verbatim>\<open>User.findById(id).populate('subscription.planId')\<close>: the plan reference is
  replaced by the plan document, or by null when the reference is absent or
  resolves to nothing.
\<close>

definition populate :: "db \<Rightarrow> subscription_doc \<Rightarrow> plan_doc option" where
  "populate d s = (case planId s of None \<Rightarrow> None | Some pid \<Rightarrow> plans d pid)"

text \<open>\<^verbatim>\<open>user.save()\<close> writes the document back under its id.\<close>

definition save_user :: "nat \<Rightarrow> user_doc \<Rightarrow> db \<Rightarrow> db" where
  "save_user uid u d = d\<lparr>users := (users d)(uid \<mapsto> u)\<rparr>"

text \<open>
  \<^verbatim>\<open>User.findById(id)\<close> returns a Mongoose document. In the user schema
  \<^verbatim>\<open>subscription\<close> is a nested path whose fields have defaults, so the document's
  \<^verbatim>\<open>subscription\<close> is always an object: for a user stored without one it holds the
  schema's defaults (status \<open>inactive\<close>, payment status \<open>completed\<close>, all counters
  and limits 0, no plan reference and no dates). The handlers' tests
  \<^verbatim>\<open>!user.subscription\<close> are kept as the \<open>None\<close> branches below; on a document
  read this way they are never taken.
\<close>

definition defaultSubscription :: subscription_doc where
  "defaultSubscription =
     \<lparr>planId = None, status = Inactive, paymentStatus = PaymentCompleted,
      startDate = None, endDate = None, listingsUsed = 0, listingsLimit = 0,
      jobPostsUsed = 0, jobPostsLimit = 0, browseCount = 0, browseCountLimit = 0,
      lastBrowseReset = None, subNotes = []\<rparr>"

definition hydrate :: "user_doc \<Rightarrow> user_doc" where
  "hydrate u =
     (case subscription u of
        None \<Rightarrow> u\<lparr>subscription := Some defaultSubscription\<rparr>
      | Some s \<Rightarrow> u)"

definition findUserById :: "db \<Rightarrow> nat \<Rightarrow> user_doc option" where
  "findUserById d uid = map_option hydrate (users d uid)"

text \<open>
  \<^verbatim>\<open>checkAndResetBillingPeriod(user)\<close>: when 30 whole days have passed since
  \<^verbatim>\<open>lastBrowseReset\<close> the browse counter is zeroed, the reset time stamped and the
  user saved; the result says whether that happened.
\<close>

definition checkAndResetBillingPeriod :: "int \<Rightarrow> user_doc \<Rightarrow> bool \<times> user_doc" where
  "checkAndResetBillingPeriod now user =
     (case subscription user of
        None \<Rightarrow> (False, user)
      | Some s \<Rightarrow>
          (case lastBrowseReset s of
             None \<Rightarrow> (False, user)
           | Some lastReset \<Rightarrow>
               (let daysSinceReset = (now - lastReset) div msPerDay in
                if daysSinceReset \<ge> 30
                then (True, user\<lparr>subscription :=
                        Some (s\<lparr>browseCount := 0, lastBrowseReset := Some now\<rparr>)\<rparr>)
                else (False, user))))"

section \<open>Limit checks\<close>

text \<open>
  The three metered checks. Each reads the user with the plan populated, falls back
  when there is no subscription or no plan, denies a subscription that is not
  active, marks an active one whose end date has passed as expired (and saves it),
  and otherwise meters the plan's limit against the usage counter.
  \<open>now\<close> is the request's \<^verbatim>\<open>new Date()\<close>.
\<close>

definition checkBrowseLimit ::
  "int \<Rightarrow> nat option \<Rightarrow> db \<Rightarrow> limit_body response \<times> db" where
  "checkBrowseLimit now reqUserId d =
     (case reqUserId of
        None \<Rightarrow> (HttpError 401 ''User ID not found'', d)
      | Some uid \<Rightarrow>
     (case findUserById d uid of
        None \<Rightarrow> (HttpError 404 ''User not found'', d)
      | Some user0 \<Rightarrow>
     (case checkAndResetBillingPeriod now user0 of (didReset, user) \<Rightarrow>
     (let d1 = (if didReset then save_user uid user d else d);
          fallback = \<lparr>allowed = True, remaining = 10, limitReached = False,
                      subscriptionOut = None,
                      message = Some ''Using free plan limits''\<rparr>
      in
     (case subscription user of
        None \<Rightarrow> (Json 200 fallback, d1)
      | Some s \<Rightarrow>
     (case populate d s of
        None \<Rightarrow> (Json 200 fallback, d1)
      | Some plan \<Rightarrow>
          if status s \<noteq> Active then
            (Json 200 \<lparr>allowed = False, remaining = 0, limitReached = True,
                       subscriptionOut = Some s,
                       message = Some (''Subscription is '' @ status_str (status s))\<rparr>, d1)
          else if now > (case endDate s of None \<Rightarrow> now | Some e \<Rightarrow> e) then
            (let s' = s\<lparr>status := Expired\<rparr> in
             (Json 200 \<lparr>allowed = False, remaining = 0, limitReached = True,
                        subscriptionOut = Some s',
                        message = Some ''Subscription has expired''\<rparr>,
              save_user uid (user\<lparr>subscription := Some s'\<rparr>) d1))
          else
            (let maxBrowses = or_else (maxBrowsesPerMonth (features plan)) 0;
                 browseCountUsed = or_else (browseCount s) 0;
                 remaining = max 0 (maxBrowses - browseCountUsed);
                 limitReached = (remaining \<le> 0)
             in (Json 200 \<lparr>allowed = \<not> limitReached, remaining = remaining,
                           limitReached = limitReached, subscriptionOut = Some s,
                           message = (if limitReached
                             then Some (''Browse limit reached ('' @ show_int maxBrowses @ '')'')
                             else None)\<rparr>, d1))))))))"

definition checkListingLimit ::
  "int \<Rightarrow> nat option \<Rightarrow> db \<Rightarrow> limit_body response \<times> db" where
  "checkListingLimit now reqUserId d =
     (case reqUserId of
        None \<Rightarrow> (HttpError 401 ''User ID not found'', d)
      | Some uid \<Rightarrow>
     (case findUserById d uid of
        None \<Rightarrow> (HttpError 404 ''User not found'', d)
      | Some user \<Rightarrow>
     (let fallback = \<lparr>allowed = False, remaining = 2, limitReached = True,
                      subscriptionOut = None,
                      message = Some ''No active subscription. Listing creation not allowed.''\<rparr>
      in
     (case subscription user of
        None \<Rightarrow> (Json 200 fallback, d)
      | Some s \<Rightarrow>
     (case populate d s of
        None \<Rightarrow> (Json 200 fallback, d)
      | Some plan \<Rightarrow>
          if status s \<noteq> Active then
            (Json 200 \<lparr>allowed = False, remaining = 0, limitReached = True,
                       subscriptionOut = Some s,
                       message = Some (''Subscription is '' @ status_str (status s)
                                         @ ''. Cannot create listings.'')\<rparr>, d)
          else if now > (case endDate s of None \<Rightarrow> now | Some e \<Rightarrow> e) then
            (let s' = s\<lparr>status := Expired\<rparr> in
             (Json 200 \<lparr>allowed = False, remaining = 0, limitReached = True,
                        subscriptionOut = Some s',
                        message = Some ''Subscription has expired. Cannot create listings.''\<rparr>,
              save_user uid (user\<lparr>subscription := Some s'\<rparr>) d))
          else
            (let maxListings' = or_else (maxListings (features plan)) 0;
                 listingsUsed' = or_else (listingsUsed s) 0;
                 remaining = max 0 (maxListings' - listingsUsed');
                 limitReached = (remaining \<le> 0)
             in (Json 200 \<lparr>allowed = \<not> limitReached, remaining = remaining,
                           limitReached = limitReached, subscriptionOut = Some s,
                           message = (if limitReached
                             then Some (''Listing limit reached ('' @ show_int maxListings'
                                          @ ''). Please upgrade.'')
                             else None)\<rparr>, d)))))))"

definition checkJobPostLimit ::
  "int \<Rightarrow> nat option \<Rightarrow> db \<Rightarrow> limit_body response \<times> db" where
  "checkJobPostLimit now reqUserId d =
     (case reqUserId of
        None \<Rightarrow> (HttpError 401 ''User ID not found'', d)
      | Some uid \<Rightarrow>
     (case findUserById d uid of
        None \<Rightarrow> (HttpError 404 ''User not found'', d)
      | Some user \<Rightarrow>
     (let fallback = \<lparr>allowed = False, remaining = 0, limitReached = True,
                      subscriptionOut = None,
                      message = Some ''No active subscription. Job posting not allowed.''\<rparr>
      in
     (case subscription user of
        None \<Rightarrow> (Json 200 fallback, d)
      | Some s \<Rightarrow>
     (case populate d s of
        None \<Rightarrow> (Json 200 fallback, d)
      | Some plan \<Rightarrow>
          if status s \<noteq> Active then
            (Json 200 \<lparr>allowed = False, remaining = 0, limitReached = True,
                       subscriptionOut = Some s,
                       message = Some (''Subscription is '' @ status_str (status s)
                                         @ ''. Cannot post jobs.'')\<rparr>, d)
          else if now > (case endDate s of None \<Rightarrow> now | Some e \<Rightarrow> e) then
            (let s' = s\<lparr>status := Expired\<rparr> in
             (Json 200 \<lparr>allowed = False, remaining = 0, limitReached = True,
                        subscriptionOut = Some s',
                        message = Some ''Subscription has expired. Cannot post jobs.''\<rparr>,
              save_user uid (user\<lparr>subscription := Some s'\<rparr>) d))
          else
            (let maxJobPosts' = or_else (maxJobPosts (features plan)) 0;
                 jobPostsUsed' = or_else (jobPostsUsed s) 0;
                 remaining = max 0 (maxJobPosts' - jobPostsUsed');
                 limitReached = (remaining \<le> 0)
             in (Json 200 \<lparr>allowed = \<not> limitReached, remaining = remaining,
                           limitReached = limitReached, subscriptionOut = Some s,
                           message = (if limitReached
                             then Some (''Job post limit reached ('' @ show_int maxJobPosts'
                                          @ ''). Please upgrade.'')
                             else None)\<rparr>, d)))))))"

section \<open>Application status transitions\<close>

text \<open>
  \<^verbatim>\<open>validateStatusTransition(currentStatus, newStatus)\<close> of
  \<^verbatim>\<open>src/server/controllers/jobController.ts\<close>. The current status is the stored
  one, which the application schema restricts to its six values; the new status
  is the request's string.
\<close>

datatype app_status =
  AppPending | Reviewed | Shortlisted | InterviewScheduled | Accepted | AppRejected

fun app_status_str :: "app_status \<Rightarrow> string" where
  "app_status_str AppPending = ''pending''"
| "app_status_str Reviewed = ''reviewed''"
| "app_status_str Shortlisted = ''shortlisted''"
| "app_status_str InterviewScheduled = ''interview_scheduled''"
| "app_status_str Accepted = ''accepted''"
| "app_status_str AppRejected = ''rejected''"

definition allStatuses :: "string list" where
  "allStatuses =
     [''pending'', ''reviewed'', ''shortlisted'', ''interview_scheduled'', ''accepted'',
      ''rejected'']"

fun join :: "string \<Rightarrow> string list \<Rightarrow> string" where
  "join sep [] = []"
| "join sep [x] = x"
| "join sep (x # y # ys) = x @ sep @ join sep (y # ys)"

definition invalidTransitions :: "string \<Rightarrow> string list option" where
  "invalidTransitions k =
     (if k = ''accepted''
      then Some [''pending'', ''reviewed'', ''shortlisted'', ''interview_scheduled'']
      else None)"

definition validateStatusTransition :: "app_status \<Rightarrow> string \<Rightarrow> transition_result" where
  "validateStatusTransition currentStatus newStatus =
     (let cur = app_status_str currentStatus in
      if newStatus \<notin> set allStatuses then
        \<lparr>valid = False,
         error = Some (''Invalid status: '' @ newStatus @ ''. Valid statuses: ''
                         @ join '', '' allStatuses)\<rparr>
      else if cur = newStatus then \<lparr>valid = True, error = None\<rparr>
      else if (case invalidTransitions cur of None \<Rightarrow> False
               | Some blocked \<Rightarrow> newStatus \<in> set blocked) then
        (let allowedFromAccepted =
               filter (\<lambda>s. s \<notin> set (the (invalidTransitions ''accepted''))
                            \<and> s \<noteq> ''accepted'') allStatuses
         in \<lparr>valid = False,
             error = Some (''Cannot change from \"'' @ cur @ ''\" to \"'' @ newStatus
                             @ ''\". From accepted status, you can only change to: ''
                             @ join '', '' allowedFromAccepted)\<rparr>)
      else \<lparr>valid = True, error = None\<rparr>)"

section \<open>Usage counters\<close>

text \<open>
  The counter endpoints read the user without populating the plan. The three
  increments test \<^verbatim>\<open>!user.subscription || status !== 'active'\<close> and refuse with
  \<^verbatim>\<open>{ success: false, message }\<close>; the decrement tests \<^verbatim>\<open>!user.subscription\<close> only,
  which a document read by \<open>findUserById\<close> never satisfies.
\<close>

definition incrementBrowseCount ::
  "int \<Rightarrow> nat option \<Rightarrow> db \<Rightarrow> count_body response \<times> db" where
  "incrementBrowseCount now reqUserId d =
     (case reqUserId of
        None \<Rightarrow> (HttpError 401 ''User ID not found'', d)
      | Some uid \<Rightarrow>
     (case findUserById d uid of
        None \<Rightarrow> (HttpError 404 ''User not found'', d)
      | Some user0 \<Rightarrow>
     (case checkAndResetBillingPeriod now user0 of (didReset, user) \<Rightarrow>
     (let d1 = (if didReset then save_user uid user d else d);
          refused = \<lparr>success = False, counterOut = None,
                     countMessage = ''No active subscription''\<rparr>
      in
     (case subscription user of
        None \<Rightarrow> (Json 200 refused, d1)
      | Some s \<Rightarrow>
          if status s \<noteq> Active then (Json 200 refused, d1)
          else
            (let s' = s\<lparr>browseCount := or_else (browseCount s) 0 + 1\<rparr> in
             (Json 200 \<lparr>success = True, counterOut = Some (browseCount s'),
                        countMessage = ''Browse count incremented''\<rparr>,
              save_user uid (user\<lparr>subscription := Some s'\<rparr>) d1)))))))"

definition incrementListingCount ::
  "nat option \<Rightarrow> db \<Rightarrow> count_body response \<times> db" where
  "incrementListingCount reqUserId d =
     (case reqUserId of
        None \<Rightarrow> (HttpError 401 ''User ID not found'', d)
      | Some uid \<Rightarrow>
     (case findUserById d uid of
        None \<Rightarrow> (HttpError 404 ''User not found'', d)
      | Some user \<Rightarrow>
     (let refused = \<lparr>success = False, counterOut = None,
                     countMessage = ''No active subscription''\<rparr>
      in
     (case subscription user of
        None \<Rightarrow> (Json 200 refused, d)
      | Some s \<Rightarrow>
          if status s \<noteq> Active then (Json 200 refused, d)
          else
            (let s' = s\<lparr>listingsUsed := or_else (listingsUsed s) 0 + 1\<rparr> in
             (Json 200 \<lparr>success = True, counterOut = Some (listingsUsed s'),
                        countMessage = ''Listing count incremented''\<rparr>,
              save_user uid (user\<lparr>subscription := Some s'\<rparr>) d))))))"

definition decrementListingCount ::
  "nat option \<Rightarrow> db \<Rightarrow> count_body response \<times> db" where
  "decrementListingCount reqUserId d =
     (case reqUserId of
        None \<Rightarrow> (HttpError 401 ''User ID not found'', d)
      | Some uid \<Rightarrow>
     (case findUserById d uid of
        None \<Rightarrow> (HttpError 404 ''User not found'', d)
      | Some user \<Rightarrow>
     (case subscription user of
        None \<Rightarrow>
          (Json 200 \<lparr>success = False, counterOut = None,
                     countMessage = ''No subscription found''\<rparr>, d)
      | Some s \<Rightarrow>
          if or_else (listingsUsed s) 0 > 0 then
            (let s' = s\<lparr>listingsUsed := or_else (listingsUsed s) 0 - 1\<rparr> in
             (Json 200 \<lparr>success = True, counterOut = Some (listingsUsed s'),
                        countMessage = ''Listing count decremented''\<rparr>,
              save_user uid (user\<lparr>subscription := Some s'\<rparr>) d))
          else
            (Json 200 \<lparr>success = True, counterOut = Some (listingsUsed s),
                       countMessage = ''Listing count decremented''\<rparr>, d))))"

definition incrementJobPostCount ::
  "nat option \<Rightarrow> db \<Rightarrow> count_body response \<times> db" where
  "incrementJobPostCount reqUserId d =
     (case reqUserId of
        None \<Rightarrow> (HttpError 401 ''User ID not found'', d)
      | Some uid \<Rightarrow>
     (case findUserById d uid of
        None \<Rightarrow> (HttpError 404 ''User not found'', d)
      | Some user \<Rightarrow>
     (let refused = \<lparr>success = False, counterOut = None,
                     countMessage = ''No active subscription''\<rparr>
      in
     (case subscription user of
        None \<Rightarrow> (Json 200 refused, d)
      | Some s \<Rightarrow>
          if status s \<noteq> Active then (Json 200 refused, d)
          else
            (let s' = s\<lparr>jobPostsUsed := or_else (jobPostsUsed s) 0 + 1\<rparr> in
             (Json 200 \<lparr>success = True, counterOut = Some (jobPostsUsed s'),
                        countMessage = ''Job post count incremented''\<rparr>,
              save_user uid (user\<lparr>subscription := Some s'\<rparr>) d))))))"

section \<open>Visibility and notification checks\<close>

text \<open>
  \<^verbatim>\<open>checkListingVisibility\<close> takes the listing's creation time and a user id from
  the request body; the route has no authentication, and the handler looks at
  neither the user's role nor the listing's owner.
\<close>

definition checkListingVisibility ::
  "int \<Rightarrow> int option \<Rightarrow> nat option \<Rightarrow> db \<Rightarrow> visibility_body response \<times> db" where
  "checkListingVisibility now listingCreatedAt reqUserId d =
     (case (listingCreatedAt, reqUserId) of
        (Some createdTime, Some uid) \<Rightarrow>
          (case findUserById d uid of
             None \<Rightarrow> (HttpError 404 ''User not found'', d)
           | Some user \<Rightarrow>
               (let freeAvailable = createdTime + 168 * msPerHour;
                    free = \<lparr>visible = (now \<ge> freeAvailable), delayHours = 168,
                            availableAt = freeAvailable, visSubscription = None\<rparr>
                in
               (case subscription user of
                  None \<Rightarrow> (Json 200 free, d)
                | Some s \<Rightarrow>
               (case populate d s of
                  None \<Rightarrow> (Json 200 free, d)
                | Some plan \<Rightarrow>
                    if status s \<noteq> Active then
                      (Json 200 \<lparr>visible = False, delayHours = 168,
                                 availableAt = now + 168 * msPerHour,
                                 visSubscription = Some s\<rparr>, d)
                    else
                      (let delayHours' =
                             (if dataDelayDays (features plan) \<noteq> 0
                              then dataDelayDays (features plan) * 24 else 0);
                           availableTime = createdTime + delayHours' * msPerHour
                       in (Json 200 \<lparr>visible = (now \<ge> availableTime),
                                     delayHours = delayHours',
                                     availableAt = availableTime,
                                     visSubscription = Some s\<rparr>, d))))))
      | _ \<Rightarrow> (HttpError 400 ''Missing required fields'', d))"

definition checkNotificationPermission ::
  "nat option \<Rightarrow> db \<Rightarrow> permission_body response \<times> db" where
  "checkNotificationPermission reqUserId d =
     (case reqUserId of
        None \<Rightarrow> (HttpError 401 ''User ID not found'', d)
      | Some uid \<Rightarrow>
     (case findUserById d uid of
        None \<Rightarrow> (HttpError 404 ''User not found'', d)
      | Some user \<Rightarrow>
     (case subscription user of
        None \<Rightarrow> (Json 200 \<lparr>permAllowed = False, permSubscription = None\<rparr>, d)
      | Some s \<Rightarrow>
          if status s \<noteq> Active then
            (Json 200 \<lparr>permAllowed = False, permSubscription = Some s\<rparr>, d)
          else
            (Json 200 \<lparr>permAllowed =
                         (case populate d s of
                            None \<Rightarrow> False
                          | Some plan \<Rightarrow> instantVehicleAlerts (features plan)
                                           \<or> instantJobAlerts (features plan)),
                       permSubscription = Some s\<rparr>, d))))"

text \<open>
  Teacher search (\<^verbatim>\<open>getTeacherDataDelayDate\<close> and \<^verbatim>\<open>getUserById\<close> of the users
  controller). The viewer is \<^verbatim>\<open>req.user\<close>, read by the authentication middleware
  with the plan populated; \<open>None\<close> is an unauthenticated request. The result is the
  cut-off: teacher records created after it are hidden.
  \<^verbatim>\<open>getUserById\<close> reads the target with \<^verbatim>\<open>.lean()\<close>, which is the stored object, and
  uses only its role and creation time.
\<close>

definition getTeacherDataDelayDate :: "int \<Rightarrow> db \<Rightarrow> user_doc option \<Rightarrow> int option" where
  "getTeacherDataDelayDate now d viewer =
     (case viewer of
        None \<Rightarrow> None
      | Some user \<Rightarrow>
          if role user = Admin then None
          else
            (let plan = (case subscription user of None \<Rightarrow> None | Some s \<Rightarrow> populate d s);
                 delayDays = (case plan of None \<Rightarrow> 15
                              | Some p \<Rightarrow> teacherDataDelayDays (features p))
             in if delayDays = 0 then None else Some (now - delayDays * msPerDay)))"

definition getUserById ::
  "int \<Rightarrow> user_doc option \<Rightarrow> nat \<Rightarrow> db \<Rightarrow> user_doc response" where
  "getUserById now viewer targetId d =
     (case users d targetId of
        None \<Rightarrow> HttpError 404 ''User not found''
      | Some user \<Rightarrow>
          if role user = Teacher
             \<and> (case viewer of None \<Rightarrow> True | Some v \<Rightarrow> role v \<noteq> Admin)
             \<and> (case getTeacherDataDelayDate now d viewer of
                   None \<Rightarrow> False
                 | Some delayDate \<Rightarrow> createdAt user > delayDate)
          then HttpError 403
            ''Access restricted: This teacher profile is only available for premium subscribers at the moment.''
          else Json 200 user)"

section \<open>Plan catalogue and subscription lifecycle\<close>

text \<open>JavaScript's \<^verbatim>\<open>a || b\<close> where \<open>a\<close> may be undefined.\<close>

definition or_opt :: "int option \<Rightarrow> int \<Rightarrow> int" where
  "or_opt a b = (case a of None \<Rightarrow> b | Some x \<Rightarrow> or_else x b)"

definition or_str :: "string option \<Rightarrow> string \<Rightarrow> string" where
  "or_str a b = (case a of None \<Rightarrow> b | Some x \<Rightarrow> if x = [] then b else x)"

text \<open>
  \<^verbatim>\<open>updatePlan\<close> is \<^verbatim>\<open>findByIdAndUpdate(id, body, { runValidators: true })\<close>: the
  body's fields replace the plan's, after the schema's \<^verbatim>\<open>min\<close> validators have
  accepted them.
\<close>

record plan_patch =
  patchDisplayName :: "string option"
  patchPrice :: "int option"
  patchDuration :: "int option"
  patchFeatures :: "plan_features option"
  patchIsActive :: "bool option"

definition patch_valid :: "plan_patch \<Rightarrow> bool" where
  "patch_valid b =
     ((case patchPrice b of None \<Rightarrow> True | Some x \<Rightarrow> x \<ge> 0)
      \<and> (case patchDuration b of None \<Rightarrow> True | Some x \<Rightarrow> x \<ge> 1)
      \<and> (case patchFeatures b of None \<Rightarrow> True
          | Some f \<Rightarrow> maxListings f \<ge> 0 \<and> maxBrowsesPerMonth f \<ge> 0))"

definition apply_patch :: "plan_patch \<Rightarrow> plan_doc \<Rightarrow> plan_doc" where
  "apply_patch b p =
     p\<lparr>displayName := (case patchDisplayName b of None \<Rightarrow> displayName p | Some x \<Rightarrow> x),
       price := (case patchPrice b of None \<Rightarrow> price p | Some x \<Rightarrow> x),
       duration := (case patchDuration b of None \<Rightarrow> duration p | Some x \<Rightarrow> x),
       features := (case patchFeatures b of None \<Rightarrow> features p | Some x \<Rightarrow> x),
       isActive := (case patchIsActive b of None \<Rightarrow> isActive p | Some x \<Rightarrow> x)\<rparr>"

definition updatePlan :: "nat \<Rightarrow> plan_patch \<Rightarrow> db \<Rightarrow> plan_doc response \<times> db" where
  "updatePlan pid body d =
     (if \<not> patch_valid body then (HttpError 400 ''Validation failed'', d)
      else
        (case plans d pid of
           None \<Rightarrow> (HttpError 404 ''Subscription plan not found'', d)
         | Some p \<Rightarrow>
             (let p' = apply_patch body p in
              (Json 200 p', d\<lparr>plans := (plans d)(pid \<mapsto> p')\<rparr>))))"

definition assignSubscription ::
  "int \<Rightarrow> nat \<Rightarrow> nat \<Rightarrow> int \<Rightarrow> int option \<Rightarrow> int option \<Rightarrow> string option \<Rightarrow> db
     \<Rightarrow> subscription_doc response \<times> db" where
  "assignSubscription now uid pid duration' customListingsLimit customBrowseLimit notes d =
     (case findUserById d uid of
        None \<Rightarrow> (HttpError 404 ''User not found'', d)
      | Some user \<Rightarrow>
     (case plans d pid of
        None \<Rightarrow> (HttpError 404 ''Subscription plan not found'', d)
      | Some plan \<Rightarrow>
          (let s = \<lparr>planId = Some pid,
                    status = Active,
                    paymentStatus = (if price plan > 0 then PaymentPending else PaymentCompleted),
                    startDate = Some now,
                    endDate = Some (now + duration' * msPerDay),
                    listingsUsed = 0,
                    listingsLimit = or_opt customListingsLimit (maxListings (features plan)),
                    jobPostsUsed = 0,
                    jobPostsLimit = maxJobPosts (features plan),
                    browseCount = 0,
                    browseCountLimit =
                      or_opt customBrowseLimit (maxBrowsesPerMonth (features plan)),
                    lastBrowseReset = Some now,
                    subNotes = or_str notes []\<rparr>
           in (Json 201 s, save_user uid (user\<lparr>subscription := Some s\<rparr>) d))))"

definition changePlan ::
  "int \<Rightarrow> nat \<Rightarrow> nat \<Rightarrow> string option \<Rightarrow> db \<Rightarrow> subscription_doc response \<times> db" where
  "changePlan now uid pid notes d =
     (case (case findUserById d uid of None \<Rightarrow> None
            | Some user \<Rightarrow> map_option (Pair user) (subscription user)) of
        None \<Rightarrow> (HttpError 404 ''User or subscription not found'', d)
      | Some (user, s) \<Rightarrow>
     (case plans d pid of
        None \<Rightarrow> (HttpError 404 ''Subscription plan not found'', d)
      | Some plan \<Rightarrow>
          (let s' = s\<lparr>planId := Some pid,
                      status := Active,
                      paymentStatus :=
                        (if price plan > 0 then PaymentPending else PaymentCompleted),
                      startDate := Some now,
                      endDate := Some (now + duration plan * msPerDay),
                      listingsLimit := maxListings (features plan),
                      jobPostsLimit := maxJobPosts (features plan),
                      browseCountLimit := maxBrowsesPerMonth (features plan),
                      subNotes := or_str notes
                        (''Plan changed by admin to '' @ displayName plan)\<rparr>
           in (Json 200 s', save_user uid (user\<lparr>subscription := Some s'\<rparr>) d))))"

section \<open>Subscription change requests\<close>

fun request_type_str :: "request_type \<Rightarrow> string" where
  "request_type_str Upgrade = ''upgrade''"
| "request_type_str Downgrade = ''downgrade''"
| "request_type_str Renewal = ''renewal''"

text \<open>
  The requests collection is a list in insertion order; a new request's id is
  the length of the list, which is fresh because no endpoint deletes a request.
\<close>

definition createSubscriptionRequest ::
  "nat option \<Rightarrow> nat \<Rightarrow> request_type \<Rightarrow> string option \<Rightarrow> db
     \<Rightarrow> request_doc response \<times> db" where
  "createSubscriptionRequest reqUserId requestedPlan rtype notes d =
     (case reqUserId of
        None \<Rightarrow> (HttpError 401 ''User ID not found'', d)
      | Some uid \<Rightarrow>
     (case findUserById d uid of
        None \<Rightarrow> (HttpError 404 ''User not found'', d)
      | Some user \<Rightarrow>
     (case plans d requestedPlan of
        None \<Rightarrow> (HttpError 404 ''Requested subscription plan not found'', d)
      | Some plan \<Rightarrow>
     (case find (\<lambda>r. userId r = uid \<and> requestStatus r = Pending) (requests d) of
        Some existingPending \<Rightarrow>
          (HttpError 400 ''You already have a pending subscription request'', d)
      | None \<Rightarrow>
          (let currentPlan = (case subscription user of None \<Rightarrow> None | Some s \<Rightarrow> planId s);
               request = \<lparr>requestId = length (requests d),
                          userId = uid,
                          currentPlanId =
                            (case currentPlan of None \<Rightarrow> requestedPlan | Some c \<Rightarrow> c),
                          requestedPlanId = requestedPlan,
                          requestType = rtype,
                          requestStatus = Pending,
                          adminNotes = None,
                          userNotes = notes,
                          updatedAt = None\<rparr>
           in (Json 201 request, d\<lparr>requests := requests d @ [request]\<rparr>))))))"

definition save_request :: "request_doc \<Rightarrow> db \<Rightarrow> db" where
  "save_request r d =
     d\<lparr>requests := map (\<lambda>x. if requestId x = requestId r then r else x) (requests d)\<rparr>"

definition updateSubscriptionRequest ::
  "int \<Rightarrow> nat \<Rightarrow> request_status \<Rightarrow> string option \<Rightarrow> db \<Rightarrow> request_doc response \<times> db" where
  "updateSubscriptionRequest now rid newStatus notes d =
     (case find (\<lambda>r. requestId r = rid) (requests d) of
        None \<Rightarrow> (HttpError 404 ''Subscription request not found'', d)
      | Some request0 \<Rightarrow>
          if requestStatus request0 \<noteq> Pending then
            (HttpError 400 ''Request has already been processed'', d)
          else
            (let request = request0\<lparr>requestStatus := newStatus, adminNotes := notes,
                                    updatedAt := Some now\<rparr>;
                 d1 =
                   (if newStatus = Approved then
                      (case (findUserById d (userId request), plans d (requestedPlanId request)) of
                         (Some user, Some plan) \<Rightarrow>
                           (case subscription user of
                              None \<Rightarrow> d
                            | Some s \<Rightarrow>
                                (let s' = s\<lparr>planId := Some (requestedPlanId request),
                                            listingsLimit := maxListings (features plan),
                                            browseCountLimit :=
                                              maxBrowsesPerMonth (features plan),
                                            jobPostsLimit := maxJobPosts (features plan),
                                            listingsUsed := 0,
                                            browseCount := 0,
                                            jobPostsUsed := 0,
                                            status := Active,
                                            paymentStatus :=
                                              (if price plan > 0 then PaymentPending
                                               else PaymentCompleted),
                                            startDate := Some now,
                                            endDate := Some (now + duration plan * msPerDay),
                                            subNotes :=
                                              ''Plan changed via request: ''
                                                @ request_type_str (requestType request)
                                                @ ''. '' @ or_str notes [],
                                            lastBrowseReset := Some now\<rparr>
                                 in save_user (userId request)
                                      (user\<lparr>subscription := Some s'\<rparr>) d))
                       | _ \<Rightarrow> d)
                    else d)
             in (Json 200 request, save_request request d1)))"

section \<open>Job creation\<close>

text \<open>
  \<^verbatim>\<open>createJob\<close> of the job controller is what enforces the job post limit when a
  job is posted. \<open>created\<close> says whether \<^verbatim>\<open>Job.create\<close> accepted the job data; the
  jobs collection itself is not modelled.
\<close>

definition createJob :: "bool \<Rightarrow> nat \<Rightarrow> db \<Rightarrow> unit response \<times> db" where
  "createJob created uid d =
     (case findUserById d uid of
        None \<Rightarrow> (HttpError 404 ''User not found'', d)
      | Some user \<Rightarrow>
          (let plan = (case subscription user of None \<Rightarrow> None | Some s \<Rightarrow> populate d s);
               maxJobPosts' = (case plan of None \<Rightarrow> 0 | Some p \<Rightarrow> maxJobPosts (features p));
               jobPostsUsed' = (case subscription user of None \<Rightarrow> 0 | Some s \<Rightarrow> jobPostsUsed s)
           in
           if role user \<noteq> Admin \<and> maxJobPosts' \<noteq> - 1 \<and> jobPostsUsed' \<ge> maxJobPosts' then
             (HttpError 403 (''You have reached your job post limit ('' @ show_int maxJobPosts'
                               @ ''). Please upgrade your plan.''), d)
           else if \<not> created then (HttpError 400 ''Failed to create job'', d)
           else
             (case subscription user of
                None \<Rightarrow> (Json 201 (), d)
              | Some s \<Rightarrow>
                  (Json 201 (),
                   save_user uid
                     (user\<lparr>subscription :=
                        Some (s\<lparr>jobPostsUsed := or_else (jobPostsUsed s) 0 + 1\<rparr>)\<rparr>) d))))"

section \<open>Sequences of decision and counter calls\<close>

text \<open>
  The calls a user's client makes against the enforcement routes, each at its own
  time and for its own user; \<open>run\<close> applies them in order and keeps the database.
\<close>

datatype api_call =
    CheckBrowseLimit
  | IncrementBrowseCount
  | CheckListingLimit
  | IncrementListingCount
  | DecrementListingCount
  | CheckJobPostLimit
  | IncrementJobPostCount
  | CheckListingVisibility int
  | CheckNotificationPermission

fun step :: "int \<Rightarrow> nat \<Rightarrow> api_call \<Rightarrow> db \<Rightarrow> db" where
  "step now uid CheckBrowseLimit d = snd (checkBrowseLimit now (Some uid) d)"
| "step now uid IncrementBrowseCount d = snd (incrementBrowseCount now (Some uid) d)"
| "step now uid CheckListingLimit d = snd (checkListingLimit now (Some uid) d)"
| "step now uid IncrementListingCount d = snd (incrementListingCount (Some uid) d)"
| "step now uid DecrementListingCount d = snd (decrementListingCount (Some uid) d)"
| "step now uid CheckJobPostLimit d = snd (checkJobPostLimit now (Some uid) d)"
| "step now uid IncrementJobPostCount d = snd (incrementJobPostCount (Some uid) d)"
| "step now uid (CheckListingVisibility created) d =
     snd (checkListingVisibility now (Some created) (Some uid) d)"
| "step now uid CheckNotificationPermission d = snd (checkNotificationPermission (Some uid) d)"

fun run :: "(int \<times> nat \<times> api_call) list \<Rightarrow> db \<Rightarrow> db" where
  "run [] d = d"
| "run ((now, uid, c) # cs) d = run cs (step now uid c d)"

text \<open>The subscription stored for a user, if any (the store, not the document read).\<close>

definition sub_of :: "db \<Rightarrow> nat \<Rightarrow> subscription_doc option" where
  "sub_of d uid = (case users d uid of None \<Rightarrow> None | Some u \<Rightarrow> subscription u)"

definition used_nonneg :: "subscription_doc \<Rightarrow> bool" where
  "used_nonneg s = (0 \<le> listingsUsed s \<and> 0 \<le> jobPostsUsed s \<and> 0 \<le> browseCount s)"

definition json_body :: "'a response \<Rightarrow> 'a option" where
  "json_body r = (case r of HttpError c m \<Rightarrow> None | Json c b \<Rightarrow> Some b)"

section \<open>Sequences of request workflow calls\<close>

text \<open>
  The two operations that write the requests collection: a user creating a change
  request and an administrator settling one.
\<close>

datatype workflow_call =
    CreateRequest nat nat request_type "string option"
  | UpdateRequest int nat request_status "string option"

fun workflow_step :: "workflow_call \<Rightarrow> db \<Rightarrow> db" where
  "workflow_step (CreateRequest uid pid rtype notes) d =
     snd (createSubscriptionRequest (Some uid) pid rtype notes d)"
| "workflow_step (UpdateRequest now rid newStatus notes) d =
     snd (updateSubscriptionRequest now rid newStatus notes d)"

fun run_workflow :: "workflow_call list \<Rightarrow> db \<Rightarrow> db" where
  "run_workflow [] d = d"
| "run_workflow (c # cs) d = run_workflow cs (workflow_step c d)"

definition is_pending_of :: "nat \<Rightarrow> request_doc \<Rightarrow> bool" where
  "is_pending_of uid r = (userId r = uid \<and> requestStatus r = Pending)"

definition pending_count :: "db \<Rightarrow> nat \<Rightarrow> nat" where
  "pending_count d uid = length (filter (is_pending_of uid) (requests d))"

text \<open>Request ids are the positions in the collection.\<close>

definition request_ids_ok :: "db \<Rightarrow> bool" where
  "request_ids_ok d = (map requestId (requests d) = [0..<length (requests d)])"

section \<open>Sample data\<close>

text \<open>
  A small database for concrete runs: plan 1 is a free institute plan, plan 2 a paid
  one whose job post limit is the sentinel \<open>-1\<close>; user 7 is an institute on plan 1,
  user 8 an institute on plan 2, user 9 an administrator and user 10 a teacher, both
  without a subscription.
\<close>

definition demo_plan :: plan_doc where
  "demo_plan =
     \<lparr>displayName = ''Institute Silver'', price = 0, duration = 30,
      features = \<lparr>maxListings = 5, maxJobPosts = 2, maxBrowsesPerMonth = 10,
                  dataDelayDays = 7, teacherDataDelayDays = 15,
                  canAdvertiseVehicles = True, instantVehicleAlerts = False,
                  instantJobAlerts = False\<rparr>,
      isActive = True\<rparr>"

definition demo_plan_unlimited :: plan_doc where
  "demo_plan_unlimited =
     \<lparr>displayName = ''Institute Gold'', price = 4999, duration = 365,
      features = \<lparr>maxListings = 50, maxJobPosts = - 1, maxBrowsesPerMonth = 500,
                  dataDelayDays = 0, teacherDataDelayDays = 0,
                  canAdvertiseVehicles = True, instantVehicleAlerts = True,
                  instantJobAlerts = True\<rparr>,
      isActive = True\<rparr>"

definition demo_sub :: subscription_doc where
  "demo_sub =
     \<lparr>planId = Some 1, status = Active, paymentStatus = PaymentCompleted,
      startDate = Some 0, endDate = Some 1000, listingsUsed = 3, listingsLimit = 5,
      jobPostsUsed = 1, jobPostsLimit = 2, browseCount = 4, browseCountLimit = 10,
      lastBrowseReset = Some 0, subNotes = []\<rparr>"

definition demo_db :: db where
  "demo_db =
     \<lparr>users =
        [7 \<mapsto> \<lparr>role = Institute, createdAt = 0, subscription = Some demo_sub\<rparr>,
         8 \<mapsto> \<lparr>role = Institute, createdAt = 0,
               subscription = Some (demo_sub\<lparr>planId := Some 2, jobPostsUsed := 0\<rparr>)\<rparr>,
         9 \<mapsto> \<lparr>role = Admin, createdAt = 0, subscription = None\<rparr>,
         10 \<mapsto> \<lparr>role = Teacher, createdAt = 500, subscription = None\<rparr>],
      plans = [1 \<mapsto> demo_plan, 2 \<mapsto> demo_plan_unlimited],
      requests = []\<rparr>"

section \<open>Properties\<close>

lemmas handler_defs = checkBrowseLimit_def incrementBrowseCount_def checkListingLimit_def
  incrementListingCount_def decrementListingCount_def checkJobPostLimit_def
  incrementJobPostCount_def checkListingVisibility_def checkNotificationPermission_def

lemmas demo_defs = demo_db_def demo_sub_def demo_plan_def demo_plan_unlimited_def

subsection \<open>Reading a user\<close>

lemma findUserById_stored [simp]:
  "findUserById d uid =
     (case users d uid of
        None \<Rightarrow> None
      | Some u \<Rightarrow>
          Some (case subscription u of
                  None \<Rightarrow> u\<lparr>subscription := Some defaultSubscription\<rparr>
                | Some s \<Rightarrow> u))"
  by (simp add: findUserById_def hydrate_def split: option.splits)

lemma defaultSubscription_fields [simp]:
  "planId defaultSubscription = None"
  "status defaultSubscription = Inactive"
  "lastBrowseReset defaultSubscription = None"
  "listingsUsed defaultSubscription = 0"
  "jobPostsUsed defaultSubscription = 0"
  "browseCount defaultSubscription = 0"
  by (simp_all add: defaultSubscription_def)

lemma populate_defaultSubscription [simp]: "populate d defaultSubscription = None"
  by (simp add: populate_def)

subsection \<open>Application status transitions\<close>

text \<open>
  Claim C10. The transition validator accepts exactly the targets among the six
  statuses, except that from \<open>accepted\<close> the only targets are \<open>accepted\<close> itself (no
  change) and \<open>rejected\<close>. So a change between any two of the six statuses is valid
  unless it leaves \<open>accepted\<close> for something other than \<open>rejected\<close>, a transition to
  the same status is valid, and a target outside the six is rejected.
\<close>

theorem validateStatusTransition_table:
  "valid (validateStatusTransition cur new) \<longleftrightarrow>
     new \<in> {''pending'', ''reviewed'', ''shortlisted'', ''interview_scheduled'',
             ''accepted'', ''rejected''}
     \<and> (cur = Accepted \<longrightarrow> new = ''accepted'' \<or> new = ''rejected'')"
  by (cases cur)
     (auto simp: validateStatusTransition_def allStatuses_def invalidTransitions_def Let_def)

theorem validateStatusTransition_table_witness:
  "valid (validateStatusTransition Accepted ''rejected'')
   \<and> valid (validateStatusTransition Accepted ''accepted'')
   \<and> \<not> valid (validateStatusTransition Accepted ''reviewed'')
   \<and> valid (validateStatusTransition AppRejected ''pending'')
   \<and> \<not> valid (validateStatusTransition AppPending ''archived'')"
  using validateStatusTransition_table [of Accepted "''rejected''"]
        validateStatusTransition_table [of Accepted "''accepted''"]
        validateStatusTransition_table [of Accepted "''reviewed''"]
        validateStatusTransition_table [of AppRejected "''pending''"]
        validateStatusTransition_table [of AppPending "''archived''"]
  by simp

subsection \<open>Invariants of the enforcement calls\<close>

lemma step_nonneg:
  "sub_of d uid = Some s \<Longrightarrow> used_nonneg s \<Longrightarrow>
   \<exists>s'. sub_of (step now uid' c d) uid = Some s' \<and> used_nonneg s'"
  by (cases c)
     (auto simp: sub_of_def used_nonneg_def handler_defs checkAndResetBillingPeriod_def
        save_user_def or_else_def Let_def split: option.splits if_splits prod.splits)

lemma run_nonneg:
  "sub_of d uid = Some s \<Longrightarrow> used_nonneg s \<Longrightarrow>
   \<exists>s'. sub_of (run cs d) uid = Some s' \<and> used_nonneg s'"
proof (induction cs arbitrary: d s)
  case Nil
  then show ?case by simp
next
  case (Cons c cs)
  obtain now uid' a where c: "c = (now, uid', a)" by (cases c)
  from step_nonneg [OF Cons.prems, of now uid' a]
  obtain s1 where "sub_of (step now uid' a d) uid = Some s1" "used_nonneg s1" by blast
  from Cons.IH [OF this] show ?case by (simp add: c)
qed



text \<open>
  Claim C2. Starting from a subscription whose three usage counters are at least
  0, any sequence of enforcement calls (the increments, the decrement and the
  checks, by any users at any times) leaves the three counters at least 0; and a
  decrement of a listing counter that is 0 changes nothing in the database and
  still answers \<^verbatim>\<open>success: true\<close>. The code has a decrement for the listing counter
  only.
\<close>

theorem usage_counters_never_negative:
  assumes "sub_of d uid = Some s" and "used_nonneg s"
  shows "(\<exists>s'. sub_of (run cs d) uid = Some s' \<and> used_nonneg s')
       \<and> (listingsUsed s = 0 \<longrightarrow>
            decrementListingCount (Some uid) d =
              (Json 200 \<lparr>success = True, counterOut = Some 0,
                         countMessage = ''Listing count decremented''\<rparr>, d))"
proof
  show "\<exists>s'. sub_of (run cs d) uid = Some s' \<and> used_nonneg s'"
    using assms by (rule run_nonneg)
next
  show "listingsUsed s = 0 \<longrightarrow>
        decrementListingCount (Some uid) d =
          (Json 200 \<lparr>success = True, counterOut = Some 0,
                     countMessage = ''Listing count decremented''\<rparr>, d)"
    using assms(1)
    by (auto simp: sub_of_def decrementListingCount_def or_else_def split: option.splits)
qed

theorem usage_counters_never_negative_witness:
  "(\<exists>s'. sub_of (run [(5, 7, DecrementListingCount), (6, 7, IncrementBrowseCount),
                       (7, 7, DecrementListingCount)]
                  (save_user 7 \<lparr>role = Institute, createdAt = 0,
                      subscription = Some (demo_sub\<lparr>listingsUsed := 0\<rparr>)\<rparr> demo_db)) 7 = Some s'
         \<and> used_nonneg s')
   \<and> decrementListingCount (Some 7)
        (save_user 7 \<lparr>role = Institute, createdAt = 0,
            subscription = Some (demo_sub\<lparr>listingsUsed := 0\<rparr>)\<rparr> demo_db) =
       (Json 200 \<lparr>success = True, counterOut = Some 0,
                  countMessage = ''Listing count decremented''\<rparr>,
        save_user 7 \<lparr>role = Institute, createdAt = 0,
            subscription = Some (demo_sub\<lparr>listingsUsed := 0\<rparr>)\<rparr> demo_db)"
proof -
  let ?s = "demo_sub\<lparr>listingsUsed := 0\<rparr>"
  let ?d = "save_user 7 \<lparr>role = Institute, createdAt = 0, subscription = Some ?s\<rparr> demo_db"
  have a: "sub_of ?d 7 = Some ?s" by (simp add: sub_of_def save_user_def)
  have b: "used_nonneg ?s" by (simp add: used_nonneg_def demo_sub_def)
  have c: "listingsUsed ?s = 0" by simp
  from usage_counters_never_negative
         [OF a b, where cs = "[(5, 7, DecrementListingCount), (6, 7, IncrementBrowseCount),
                               (7, 7, DecrementListingCount)]"] c
  show ?thesis by blast
qed



subsection \<open>Change requests\<close>

lemma filter_map_le:
  "(\<And>x. x \<in> set xs \<Longrightarrow> P (f x) \<Longrightarrow> P x) \<Longrightarrow>
   length (filter P (map f xs)) \<le> length (filter P xs)"
  by (induction xs) auto

lemma create_request_ids:
  "request_ids_ok d \<Longrightarrow>
   request_ids_ok (snd (createSubscriptionRequest (Some uid) pid rtype unote d))"
  by (auto simp: createSubscriptionRequest_def request_ids_ok_def Let_def
        split: option.splits)

lemma create_request_pending:
  "pending_count d uid' \<le> 1 \<Longrightarrow>
   pending_count (snd (createSubscriptionRequest (Some uid) pid rtype unote d)) uid' \<le> 1"
proof (cases "find (\<lambda>r. userId r = uid \<and> requestStatus r = Pending) (requests d)")
  case None
  then have "filter (is_pending_of uid) (requests d) = []"
    by (auto simp: find_None_iff filter_empty_conv is_pending_of_def)
  then show "pending_count d uid' \<le> 1 \<Longrightarrow> ?thesis"
    using None
    by (auto simp: createSubscriptionRequest_def pending_count_def Let_def is_pending_of_def
          split: option.splits)
next
  case (Some r)
  then show "pending_count d uid' \<le> 1 \<Longrightarrow> ?thesis"
    by (auto simp: createSubscriptionRequest_def split: option.splits)
qed

lemma update_request_requests:
  "requests (snd (updateSubscriptionRequest now rid newStatus adm d)) = requests d
   \<or> (\<exists>r0. find (\<lambda>r. requestId r = rid) (requests d) = Some r0
          \<and> requestStatus r0 = Pending
          \<and> requests (snd (updateSubscriptionRequest now rid newStatus adm d)) =
              map (\<lambda>x. if requestId x = rid
                        then r0\<lparr>requestStatus := newStatus, adminNotes := adm,
                                updatedAt := Some now\<rparr>
                        else x) (requests d))"
proof (cases "find (\<lambda>r. requestId r = rid) (requests d)")
  case None
  then show ?thesis by (simp add: updateSubscriptionRequest_def)
next
  case (Some r0)
  then have rid: "requestId r0 = rid" by (auto simp: find_Some_iff)
  show ?thesis
  proof (cases "requestStatus r0 = Pending")
    case False
    with Some show ?thesis by (simp add: updateSubscriptionRequest_def)
  next
    case True
    with Some rid show ?thesis
      by (auto simp: updateSubscriptionRequest_def save_request_def save_user_def Let_def
            split: option.splits prod.splits)
  qed
qed

lemma update_request_ids:
  fixes adm :: "string option"
  assumes "request_ids_ok d"
  shows "request_ids_ok (snd (updateSubscriptionRequest now rid newStatus adm d))"
proof -
  from update_request_requests [of now rid newStatus adm d]
  show ?thesis
  proof
    assume "requests (snd (updateSubscriptionRequest now rid newStatus adm d)) = requests d"
    with assms show ?thesis by (simp add: request_ids_ok_def)
  next
    assume "\<exists>r0. find (\<lambda>r. requestId r = rid) (requests d) = Some r0
          \<and> requestStatus r0 = Pending
          \<and> requests (snd (updateSubscriptionRequest now rid newStatus adm d)) =
              map (\<lambda>x. if requestId x = rid
                        then r0\<lparr>requestStatus := newStatus, adminNotes := adm,
                                updatedAt := Some now\<rparr>
                        else x) (requests d)"
    then obtain r0 where f: "find (\<lambda>r. requestId r = rid) (requests d) = Some r0"
      and rs: "requests (snd (updateSubscriptionRequest now rid newStatus adm d)) =
              map (\<lambda>x. if requestId x = rid
                        then r0\<lparr>requestStatus := newStatus, adminNotes := adm,
                                updatedAt := Some now\<rparr>
                        else x) (requests d)" by blast
    from f have "requestId r0 = rid" by (auto simp: find_Some_iff)
    then have "map requestId (requests (snd (updateSubscriptionRequest now rid newStatus adm d)))
        = map requestId (requests d)"
      unfolding rs by (induction "requests d") auto
    moreover have "length (requests (snd (updateSubscriptionRequest now rid newStatus adm d)))
        = length (requests d)"
      unfolding rs by simp
    ultimately show ?thesis using assms by (simp add: request_ids_ok_def)
  qed
qed

lemma update_request_pending:
  assumes "request_ids_ok d"
  shows "pending_count (snd (updateSubscriptionRequest now rid newStatus adm d)) uid
           \<le> pending_count d uid"
proof -
  from update_request_requests [of now rid newStatus adm d]
  show ?thesis
  proof
    assume "requests (snd (updateSubscriptionRequest now rid newStatus adm d)) = requests d"
    then show ?thesis by (simp add: pending_count_def)
  next
    assume "\<exists>r0. find (\<lambda>r. requestId r = rid) (requests d) = Some r0
          \<and> requestStatus r0 = Pending
          \<and> requests (snd (updateSubscriptionRequest now rid newStatus adm d)) =
              map (\<lambda>x. if requestId x = rid
                        then r0\<lparr>requestStatus := newStatus, adminNotes := adm,
                                updatedAt := Some now\<rparr>
                        else x) (requests d)"
    then obtain r0 where f: "find (\<lambda>r. requestId r = rid) (requests d) = Some r0"
      and pend: "requestStatus r0 = Pending"
      and rs: "requests (snd (updateSubscriptionRequest now rid newStatus adm d)) =
              map (\<lambda>x. if requestId x = rid
                        then r0\<lparr>requestStatus := newStatus, adminNotes := adm,
                                updatedAt := Some now\<rparr>
                        else x) (requests d)" by blast
    from f have r0: "r0 \<in> set (requests d)" "requestId r0 = rid"
      by (auto simp: find_Some_iff)
    from assms have "distinct (map requestId (requests d))"
      by (simp add: request_ids_ok_def)
    then have inj: "inj_on requestId (set (requests d))"
      by (simp add: distinct_map)
    have same: "x = r0" if "x \<in> set (requests d)" "requestId x = rid" for x
      using inj r0 that by (auto dest: inj_onD)
    show ?thesis
      unfolding pending_count_def rs
    proof (rule filter_map_le)
      fix x
      assume x: "x \<in> set (requests d)"
        and p: "is_pending_of uid
                  (if requestId x = rid
                   then r0\<lparr>requestStatus := newStatus, adminNotes := adm,
                           updatedAt := Some now\<rparr>
                   else x)"
      show "is_pending_of uid x"
      proof (cases "requestId x = rid")
        case True
        with x have "x = r0" by (rule same)
        with p True pend show ?thesis by (simp add: is_pending_of_def)
      next
        case False
        with p show ?thesis by simp
      qed
    qed
  qed
qed

lemma workflow_step_inv:
  "request_ids_ok d \<and> pending_count d uid \<le> 1 \<Longrightarrow>
   request_ids_ok (workflow_step c d) \<and> pending_count (workflow_step c d) uid \<le> 1"
proof (cases c)
  case (CreateRequest u p t n)
  then show "request_ids_ok d \<and> pending_count d uid \<le> 1 \<Longrightarrow> ?thesis"
    using create_request_pending [of d uid u p t n]
    by (simp add: create_request_ids)
next
  case (UpdateRequest now rid st n)
  then show "request_ids_ok d \<and> pending_count d uid \<le> 1 \<Longrightarrow> ?thesis"
    using update_request_pending [of d now rid st n uid]
    by (simp add: update_request_ids)
qed

lemma run_workflow_inv:
  "request_ids_ok d \<and> pending_count d uid \<le> 1 \<Longrightarrow>
   request_ids_ok (run_workflow cs d) \<and> pending_count (run_workflow cs d) uid \<le> 1"
proof (induction cs arbitrary: d)
  case Nil
  then show ?case by simp
next
  case (Cons c cs)
  from workflow_step_inv [OF Cons.prems, of c] Cons.IH show ?case by simp
qed

text \<open>
  Claim C8. When the user already has a pending change request, creating another
  one leaves the database as it is and answers with an error, whatever plan is
  requested; when the user and the requested plan exist the error is the duplicate
  one (status 400, \<open>You already have a pending subscription request\<close>; an unknown
  plan is reported as not found before the duplicate check runs). Starting from an
  empty requests collection, no sequence of create and update calls ever leaves a
  user with more than one pending request.
\<close>

theorem duplicate_request_rejected:
  "((\<exists>r \<in> set (requests d). userId r = uid \<and> requestStatus r = Pending) \<longrightarrow>
      snd (createSubscriptionRequest (Some uid) pid rtype unote d) = d
      \<and> json_body (fst (createSubscriptionRequest (Some uid) pid rtype unote d)) = None
      \<and> (users d uid \<noteq> None \<and> plans d pid \<noteq> None \<longrightarrow>
           fst (createSubscriptionRequest (Some uid) pid rtype unote d) =
             HttpError 400 ''You already have a pending subscription request''))
   \<and> (requests dstart = [] \<longrightarrow> pending_count (run_workflow cs dstart) uid' \<le> 1)"
proof (intro conjI impI)
  assume "\<exists>r \<in> set (requests d). userId r = uid \<and> requestStatus r = Pending"
  then have "find (\<lambda>r. userId r = uid \<and> requestStatus r = Pending) (requests d) \<noteq> None"
    by (auto simp: find_None_iff)
  then obtain r where f: "find (\<lambda>r. userId r = uid \<and> requestStatus r = Pending) (requests d)
                            = Some r"
    by blast
  show "snd (createSubscriptionRequest (Some uid) pid rtype unote d) = d"
    using f by (auto simp: createSubscriptionRequest_def split: option.splits)
  show "json_body (fst (createSubscriptionRequest (Some uid) pid rtype unote d)) = None"
    using f by (auto simp: createSubscriptionRequest_def json_body_def split: option.splits)
  show "fst (createSubscriptionRequest (Some uid) pid rtype unote d) =
          HttpError 400 ''You already have a pending subscription request''"
    if "users d uid \<noteq> None \<and> plans d pid \<noteq> None"
    using f that by (auto simp: createSubscriptionRequest_def split: option.splits)
next
  assume "requests dstart = []"
  then have "request_ids_ok dstart \<and> pending_count dstart uid' \<le> 1"
    by (simp add: request_ids_ok_def pending_count_def)
  from run_workflow_inv [OF this] show "pending_count (run_workflow cs dstart) uid' \<le> 1"
    by simp
qed

theorem duplicate_request_rejected_witness:
  "snd (createSubscriptionRequest (Some 7) 1 Renewal None
         (demo_db\<lparr>requests :=
            [\<lparr>requestId = 0, userId = 7, currentPlanId = 1, requestedPlanId = 2,
              requestType = Upgrade, requestStatus = Pending, adminNotes = None,
              userNotes = None, updatedAt = None\<rparr>]\<rparr>)) =
     demo_db\<lparr>requests :=
        [\<lparr>requestId = 0, userId = 7, currentPlanId = 1, requestedPlanId = 2,
          requestType = Upgrade, requestStatus = Pending, adminNotes = None,
          userNotes = None, updatedAt = None\<rparr>]\<rparr>
   \<and> fst (createSubscriptionRequest (Some 7) 1 Renewal None
         (demo_db\<lparr>requests :=
            [\<lparr>requestId = 0, userId = 7, currentPlanId = 1, requestedPlanId = 2,
              requestType = Upgrade, requestStatus = Pending, adminNotes = None,
              userNotes = None, updatedAt = None\<rparr>]\<rparr>)) =
       HttpError 400 ''You already have a pending subscription request''
   \<and> pending_count
         (run_workflow [CreateRequest 7 2 Upgrade None, CreateRequest 7 1 Renewal None,
                        UpdateRequest 50 0 Approved None, CreateRequest 7 1 Downgrade None]
            demo_db) 7 \<le> 1"
proof -
  let ?d = "demo_db\<lparr>requests :=
              [\<lparr>requestId = 0, userId = 7, currentPlanId = 1, requestedPlanId = 2,
                requestType = Upgrade, requestStatus = Pending, adminNotes = None,
                userNotes = None, updatedAt = None\<rparr>]\<rparr>"
  have h1: "\<exists>r \<in> set (requests ?d). userId r = 7 \<and> requestStatus r = Pending" by simp
  have h2: "users ?d 7 \<noteq> None \<and> plans ?d 1 \<noteq> None" by (simp add: demo_db_def)
  have h3: "requests demo_db = []" by (simp add: demo_db_def)
  from duplicate_request_rejected
         [where d = "?d" and uid = 7 and pid = 1 and rtype = Renewal and unote = None
            and dstart = demo_db and uid' = 7
            and cs = "[CreateRequest 7 2 Upgrade None, CreateRequest 7 1 Renewal None,
                       UpdateRequest 50 0 Approved None, CreateRequest 7 1 Downgrade None]"]
       h1 h2 h3
  show ?thesis by blast
qed

subsection \<open>Counter mutations and the subscription status\<close>




subsection \<open>Visibility delay\<close>

text \<open>
  Claim C9 as stated fails: \<^verbatim>\<open>checkListingVisibility\<close> has no bypass for
  administrators. For user 9, an administrator without a subscription, a listing
  created at the very moment of the check is not visible and the delay is 168
  hours.
\<close>

theorem listing_visibility_bypass_counterexample:
  "map_option role (users demo_db 9) = Some Admin
   \<and> fst (checkListingVisibility 1000 (Some 1000) (Some 9) demo_db) =
       Json 200 \<lparr>visible = False, delayHours = 168, availableAt = 604801000,
                 visSubscription = None\<rparr>"
  by (simp add: checkListingVisibility_def demo_db_def msPerHour_def)

text \<open>
  Claim C9, amended. \<^verbatim>\<open>checkListingVisibility\<close> looks at no role and no owner. For
  a user with an active subscription whose plan resolves, the delay is
  \<open>dataDelayDays * 24\<close> hours, the listing is available at its creation time plus
  the delay, and it is visible exactly from then on. With no subscription or no
  plan the delay is the default of 168 hours, by the same formula. With a
  subscription that is not active the listing is not visible, the delay is 168
  hours and the availability time is \<open>now\<close> plus 168 hours. In teacher search
  (\<^verbatim>\<open>getUserById\<close> with \<^verbatim>\<open>getTeacherDataDelayDate\<close>) the delay is the viewer's plan's
  \<open>teacherDataDelayDays\<close> days, 15 when the viewer has no plan: an administrator
  always gets a teacher's profile, and any other signed-in viewer gets it exactly
  when the delay is 0 or has passed since the profile was created.
\<close>

theorem listing_visibility_rules:
  assumes "users d uid = Some u"
  shows
    "(\<forall>s p. subscription u = Some s \<and> populate d s = Some p \<and> status s = Active \<longrightarrow>
        fst (checkListingVisibility now (Some c) (Some uid) d) =
          Json 200 \<lparr>visible = (c + dataDelayDays (features p) * 24 * msPerHour \<le> now),
                    delayHours = dataDelayDays (features p) * 24,
                    availableAt = c + dataDelayDays (features p) * 24 * msPerHour,
                    visSubscription = Some s\<rparr>)
     \<and> ((subscription u = None \<or> (\<exists>s. subscription u = Some s \<and> populate d s = None)) \<longrightarrow>
        fst (checkListingVisibility now (Some c) (Some uid) d) =
          Json 200 \<lparr>visible = (c + 168 * msPerHour \<le> now), delayHours = 168,
                    availableAt = c + 168 * msPerHour, visSubscription = None\<rparr>)
     \<and> (\<forall>s p. subscription u = Some s \<and> populate d s = Some p \<and> status s \<noteq> Active \<longrightarrow>
        fst (checkListingVisibility now (Some c) (Some uid) d) =
          Json 200 \<lparr>visible = False, delayHours = 168,
                    availableAt = now + 168 * msPerHour, visSubscription = Some s\<rparr>)
     \<and> (\<forall>t dd. users d tid = Some t \<and> role t = Teacher
            \<and> dd = (case subscription u of None \<Rightarrow> 15
                     | Some s \<Rightarrow> (case populate d s of None \<Rightarrow> 15
                                  | Some p \<Rightarrow> teacherDataDelayDays (features p))) \<longrightarrow>
          (role u = Admin \<longrightarrow> getUserById now (Some u) tid d = Json 200 t)
          \<and> (role u \<noteq> Admin \<longrightarrow>
               (getUserById now (Some u) tid d = Json 200 t
                  \<longleftrightarrow> dd = 0 \<or> createdAt t + dd * 24 * msPerHour \<le> now)))"
proof (intro conjI allI impI)
  fix s p
  assume "subscription u = Some s \<and> populate d s = Some p \<and> status s = Active"
  with assms show "fst (checkListingVisibility now (Some c) (Some uid) d) =
          Json 200 \<lparr>visible = (c + dataDelayDays (features p) * 24 * msPerHour \<le> now),
                    delayHours = dataDelayDays (features p) * 24,
                    availableAt = c + dataDelayDays (features p) * 24 * msPerHour,
                    visSubscription = Some s\<rparr>"
    by (simp add: checkListingVisibility_def Let_def)
next
  assume "subscription u = None \<or> (\<exists>s. subscription u = Some s \<and> populate d s = None)"
  with assms show "fst (checkListingVisibility now (Some c) (Some uid) d) =
          Json 200 \<lparr>visible = (c + 168 * msPerHour \<le> now), delayHours = 168,
                    availableAt = c + 168 * msPerHour, visSubscription = None\<rparr>"
    by (auto simp: checkListingVisibility_def Let_def)
next
  fix s p
  assume "subscription u = Some s \<and> populate d s = Some p \<and> status s \<noteq> Active"
  with assms show "fst (checkListingVisibility now (Some c) (Some uid) d) =
          Json 200 \<lparr>visible = False, delayHours = 168,
                    availableAt = now + 168 * msPerHour, visSubscription = Some s\<rparr>"
    by (simp add: checkListingVisibility_def Let_def)
next
  fix t dd
  assume h: "users d tid = Some t \<and> role t = Teacher
            \<and> dd = (case subscription u of None \<Rightarrow> 15
                     | Some s \<Rightarrow> (case populate d s of None \<Rightarrow> 15
                                  | Some p \<Rightarrow> teacherDataDelayDays (features p)))"
  show "getUserById now (Some u) tid d = Json 200 t" if "role u = Admin"
    using h that by (simp add: getUserById_def getTeacherDataDelayDate_def)
  show "getUserById now (Some u) tid d = Json 200 t
          \<longleftrightarrow> dd = 0 \<or> createdAt t + dd * 24 * msPerHour \<le> now" if "role u \<noteq> Admin"
    using h that
    by (auto simp: getUserById_def getTeacherDataDelayDate_def Let_def msPerDay_def
          msPerHour_def split: option.splits)
qed

theorem listing_visibility_rules_witness:
  "fst (checkListingVisibility 1000 (Some 0) (Some 7) demo_db) =
     Json 200 \<lparr>visible = False, delayHours = 168, availableAt = 604800000,
               visSubscription = Some demo_sub\<rparr>
   \<and> fst (checkListingVisibility 604800000 (Some 0) (Some 7) demo_db) =
     Json 200 \<lparr>visible = True, delayHours = 168, availableAt = 604800000,
               visSubscription = Some demo_sub\<rparr>
   \<and> getUserById 2000000000
        (Some \<lparr>role = Institute, createdAt = 0, subscription = Some demo_sub\<rparr>) 10 demo_db =
     Json 200 \<lparr>role = Teacher, createdAt = 500, subscription = None\<rparr>"
proof -
  let ?u = "\<lparr>role = Institute, createdAt = 0, subscription = Some demo_sub\<rparr>"
  let ?t = "\<lparr>role = Teacher, createdAt = 500, subscription = None\<rparr>"
  have u: "users demo_db 7 = Some ?u" by (simp add: demo_db_def)
  have s: "subscription ?u = Some demo_sub \<and> populate demo_db demo_sub = Some demo_plan
             \<and> status demo_sub = Active"
    by (simp add: populate_def demo_db_def demo_sub_def)
  have f: "dataDelayDays (features demo_plan) = 7" by (simp add: demo_plan_def)
  have t: "users demo_db 10 = Some ?t \<and> role ?t = Teacher
             \<and> (15::int) = (case subscription ?u of None \<Rightarrow> 15
                     | Some s \<Rightarrow> (case populate demo_db s of None \<Rightarrow> 15
                                  | Some p \<Rightarrow> teacherDataDelayDays (features p)))"
    by (simp add: populate_def demo_db_def demo_sub_def demo_plan_def)
  have r: "role ?u \<noteq> Admin" by simp
  from listing_visibility_rules [OF u, of 1000 0 10] s f
  have p1: "fst (checkListingVisibility 1000 (Some 0) (Some 7) demo_db) =
     Json 200 \<lparr>visible = False, delayHours = 168, availableAt = 604800000,
               visSubscription = Some demo_sub\<rparr>"
    by (simp add: msPerHour_def)
  from listing_visibility_rules [OF u, of 604800000 0 10] s f
  have p2: "fst (checkListingVisibility 604800000 (Some 0) (Some 7) demo_db) =
     Json 200 \<lparr>visible = True, delayHours = 168, availableAt = 604800000,
               visSubscription = Some demo_sub\<rparr>"
    by (simp add: msPerHour_def)
  from listing_visibility_rules [OF u, of 2000000000 0 10] t r
  have p3: "getUserById 2000000000 (Some ?u) 10 demo_db = Json 200 ?t"
    by (simp add: msPerHour_def)
  from p1 p2 p3 show ?thesis by blast
qed

subsection \<open>Limit checks\<close>

lemma show_int_minus_one: "show_int (- 1) = ''-1''"
  by code_simp

text \<open>
  Claim C1. For an active subscription whose end date has not passed, each of the
  three checks answers \<open>remaining = max 0 (limit - used)\<close> with the limit read from
  the plan, \<open>allowed\<close> exactly when \<open>remaining > 0\<close>, and \<open>limitReached\<close> otherwise
  (the browse check counts usage after the 30-day rollover). The checks have no
  case for the sentinel: with a job post limit of \<open>-1\<close> the formula gives
  \<open>remaining = 0\<close> and \<^verbatim>\<open>checkJobPostLimit\<close> denies, while \<^verbatim>\<open>createJob\<close>, which treats
  \<open>-1\<close> as unlimited, creates the job for the same user.
\<close>

theorem limit_checks_without_sentinel:
  assumes "users d uid = Some u" and "subscription u = Some s"
    and "populate d s = Some p" and "status s = Active"
    and "endDate s = Some e" and "now \<le> e"
  shows "(\<exists>b. fst (checkListingLimit now (Some uid) d) = Json 200 b
            \<and> remaining b = max 0 (maxListings (features p) - listingsUsed s)
            \<and> allowed b = (0 < remaining b) \<and> limitReached b = (\<not> allowed b))
       \<and> (\<exists>b. fst (checkJobPostLimit now (Some uid) d) = Json 200 b
            \<and> remaining b = max 0 (maxJobPosts (features p) - jobPostsUsed s)
            \<and> allowed b = (0 < remaining b) \<and> limitReached b = (\<not> allowed b))
       \<and> (\<exists>b. fst (checkBrowseLimit now (Some uid) d) = Json 200 b
            \<and> remaining b = max 0 (maxBrowsesPerMonth (features p)
                  - (if fst (checkAndResetBillingPeriod now u) then 0 else browseCount s))
            \<and> allowed b = (0 < remaining b) \<and> limitReached b = (\<not> allowed b))
       \<and> (maxJobPosts (features p) = - 1 \<and> 0 \<le> jobPostsUsed s \<and> role u \<noteq> Admin \<longrightarrow>
            fst (checkJobPostLimit now (Some uid) d) =
              Json 200 \<lparr>allowed = False, remaining = 0, limitReached = True,
                        subscriptionOut = Some s,
                        message = Some ''Job post limit reached (-1). Please upgrade.''\<rparr>
            \<and> fst (createJob True uid d) = Json 201 ())"
proof (intro conjI impI)
  show "\<exists>b. fst (checkListingLimit now (Some uid) d) = Json 200 b
            \<and> remaining b = max 0 (maxListings (features p) - listingsUsed s)
            \<and> allowed b = (0 < remaining b) \<and> limitReached b = (\<not> allowed b)"
    using assms by (auto simp: checkListingLimit_def Let_def or_else_def)
  show "\<exists>b. fst (checkJobPostLimit now (Some uid) d) = Json 200 b
            \<and> remaining b = max 0 (maxJobPosts (features p) - jobPostsUsed s)
            \<and> allowed b = (0 < remaining b) \<and> limitReached b = (\<not> allowed b)"
    using assms by (auto simp: checkJobPostLimit_def Let_def or_else_def)
  show "\<exists>b. fst (checkBrowseLimit now (Some uid) d) = Json 200 b
            \<and> remaining b = max 0 (maxBrowsesPerMonth (features p)
                  - (if fst (checkAndResetBillingPeriod now u) then 0 else browseCount s))
            \<and> allowed b = (0 < remaining b) \<and> limitReached b = (\<not> allowed b)"
    using assms
    by (auto simp: checkBrowseLimit_def checkAndResetBillingPeriod_def populate_def Let_def
          or_else_def split: option.splits)
next
  assume h: "maxJobPosts (features p) = - 1 \<and> 0 \<le> jobPostsUsed s \<and> role u \<noteq> Admin"
  show "fst (checkJobPostLimit now (Some uid) d) =
              Json 200 \<lparr>allowed = False, remaining = 0, limitReached = True,
                        subscriptionOut = Some s,
                        message = Some ''Job post limit reached (-1). Please upgrade.''\<rparr>"
    using assms h
    by (auto simp: checkJobPostLimit_def Let_def or_else_def show_int_minus_one)
  show "fst (createJob True uid d) = Json 201 ()"
    using assms h by (auto simp: createJob_def Let_def)
qed

theorem limit_checks_without_sentinel_witness:
  "fst (checkJobPostLimit 500 (Some 8) demo_db) =
     Json 200 \<lparr>allowed = False, remaining = 0, limitReached = True,
               subscriptionOut = Some (demo_sub\<lparr>planId := Some 2, jobPostsUsed := 0\<rparr>),
               message = Some ''Job post limit reached (-1). Please upgrade.''\<rparr>
   \<and> fst (createJob True 8 demo_db) = Json 201 ()"
proof -
  let ?s = "demo_sub\<lparr>planId := Some 2, jobPostsUsed := 0\<rparr>"
  let ?u = "\<lparr>role = Institute, createdAt = 0, subscription = Some ?s\<rparr>"
  have u: "users demo_db 8 = Some ?u" by (simp add: demo_db_def)
  have s: "subscription ?u = Some ?s" by simp
  have p: "populate demo_db ?s = Some demo_plan_unlimited"
    by (simp add: populate_def demo_db_def)
  have a: "status ?s = Active" by (simp add: demo_sub_def)
  have e: "endDate ?s = Some 1000" by (simp add: demo_sub_def)
  have n: "(500::int) \<le> 1000" by simp
  have h: "maxJobPosts (features demo_plan_unlimited) = - 1 \<and> 0 \<le> jobPostsUsed ?s
             \<and> role ?u \<noteq> Admin"
    by (simp add: demo_plan_unlimited_def)
  from limit_checks_without_sentinel [OF u s p a e n] h show ?thesis by blast
qed

text \<open>
  Claim C4. For a user with no subscription, or with one whose plan reference
  does not resolve, the browse check answers with the open fallback
  (\<^verbatim>\<open>allowed: true, remaining: 10, limitReached: false\<close>). The listing check denies
  (\<^verbatim>\<open>allowed: false, limitReached: true\<close>) but reports \<^verbatim>\<open>remaining: 2\<close>, where the job
  post check in the same situation reports \<^verbatim>\<open>remaining: 0\<close>.
\<close>

theorem no_subscription_fallbacks:
  assumes "users d uid = Some u"
    and "subscription u = None \<or> (\<exists>s. subscription u = Some s \<and> populate d s = None)"
  shows "fst (checkBrowseLimit now (Some uid) d) =
           Json 200 \<lparr>allowed = True, remaining = 10, limitReached = False,
                     subscriptionOut = None, message = Some ''Using free plan limits''\<rparr>
       \<and> fst (checkListingLimit now (Some uid) d) =
           Json 200 \<lparr>allowed = False, remaining = 2, limitReached = True,
                     subscriptionOut = None,
                     message = Some ''No active subscription. Listing creation not allowed.''\<rparr>
       \<and> fst (checkJobPostLimit now (Some uid) d) =
           Json 200 \<lparr>allowed = False, remaining = 0, limitReached = True,
                     subscriptionOut = None,
                     message = Some ''No active subscription. Job posting not allowed.''\<rparr>"
proof (intro conjI)
  show "fst (checkBrowseLimit now (Some uid) d) =
           Json 200 \<lparr>allowed = True, remaining = 10, limitReached = False,
                     subscriptionOut = None, message = Some ''Using free plan limits''\<rparr>"
    using assms
    by (auto simp: checkBrowseLimit_def checkAndResetBillingPeriod_def populate_def Let_def
          split: option.splits)
  show "fst (checkListingLimit now (Some uid) d) =
           Json 200 \<lparr>allowed = False, remaining = 2, limitReached = True,
                     subscriptionOut = None,
                     message = Some ''No active subscription. Listing creation not allowed.''\<rparr>"
    using assms by (auto simp: checkListingLimit_def Let_def)
  show "fst (checkJobPostLimit now (Some uid) d) =
           Json 200 \<lparr>allowed = False, remaining = 0, limitReached = True,
                     subscriptionOut = None,
                     message = Some ''No active subscription. Job posting not allowed.''\<rparr>"
    using assms by (auto simp: checkJobPostLimit_def Let_def)
qed

theorem no_subscription_fallbacks_witness:
  "fst (checkBrowseLimit 1000 (Some 9) demo_db) =
           Json 200 \<lparr>allowed = True, remaining = 10, limitReached = False,
                     subscriptionOut = None, message = Some ''Using free plan limits''\<rparr>
   \<and> fst (checkListingLimit 1000 (Some 9) demo_db) =
           Json 200 \<lparr>allowed = False, remaining = 2, limitReached = True,
                     subscriptionOut = None,
                     message = Some ''No active subscription. Listing creation not allowed.''\<rparr>"
proof -
  have u: "users demo_db 9 = Some \<lparr>role = Admin, createdAt = 0, subscription = None\<rparr>"
    by (simp add: demo_db_def)
  have n: "subscription \<lparr>role = Admin, createdAt = 0, subscription = None\<rparr> = None
           \<or> (\<exists>s. subscription \<lparr>role = Admin, createdAt = 0, subscription = None\<rparr> = Some s
                  \<and> populate demo_db s = None)"
    by simp
  from no_subscription_fallbacks [OF u n, of 1000] show ?thesis by blast
qed

text \<open>
  Claim C7. The checks meter against the plan as it is when the check runs, not
  against the limits copied into the subscription: after \<^verbatim>\<open>updatePlan\<close> has replaced
  the plan's features, the subscription (its copied limits included) is as before,
  and each check computes \<open>remaining\<close> from the new features.
\<close>

theorem limit_checks_follow_plan_edits:
  assumes "users d uid = Some u" and "subscription u = Some s"
    and "planId s = Some pid" and "plans d pid = Some p"
    and "status s = Active" and "endDate s = Some e" and "now \<le> e"
    and "patch_valid body" and "patchFeatures body = Some f"
  shows "sub_of (snd (updatePlan pid body d)) uid = Some s
       \<and> (\<exists>b. fst (checkListingLimit now (Some uid) (snd (updatePlan pid body d))) = Json 200 b
            \<and> remaining b = max 0 (maxListings f - listingsUsed s)
            \<and> allowed b = (0 < remaining b))
       \<and> (\<exists>b. fst (checkJobPostLimit now (Some uid) (snd (updatePlan pid body d))) = Json 200 b
            \<and> remaining b = max 0 (maxJobPosts f - jobPostsUsed s)
            \<and> allowed b = (0 < remaining b))
       \<and> (\<exists>b. fst (checkBrowseLimit now (Some uid) (snd (updatePlan pid body d))) = Json 200 b
            \<and> remaining b = max 0 (maxBrowsesPerMonth f
                  - (if fst (checkAndResetBillingPeriod now u) then 0 else browseCount s))
            \<and> allowed b = (0 < remaining b))"
proof (intro conjI)
  show "sub_of (snd (updatePlan pid body d)) uid = Some s"
    using assms by (simp add: updatePlan_def sub_of_def Let_def)
  show "\<exists>b. fst (checkListingLimit now (Some uid) (snd (updatePlan pid body d))) = Json 200 b
            \<and> remaining b = max 0 (maxListings f - listingsUsed s)
            \<and> allowed b = (0 < remaining b)"
    using assms
    by (auto simp: updatePlan_def checkListingLimit_def populate_def apply_patch_def Let_def
          or_else_def)
  show "\<exists>b. fst (checkJobPostLimit now (Some uid) (snd (updatePlan pid body d))) = Json 200 b
            \<and> remaining b = max 0 (maxJobPosts f - jobPostsUsed s)
            \<and> allowed b = (0 < remaining b)"
    using assms
    by (auto simp: updatePlan_def checkJobPostLimit_def populate_def apply_patch_def Let_def
          or_else_def)
  show "\<exists>b. fst (checkBrowseLimit now (Some uid) (snd (updatePlan pid body d))) = Json 200 b
            \<and> remaining b = max 0 (maxBrowsesPerMonth f
                  - (if fst (checkAndResetBillingPeriod now u) then 0 else browseCount s))
            \<and> allowed b = (0 < remaining b)"
    using assms
    by (auto simp: updatePlan_def checkBrowseLimit_def checkAndResetBillingPeriod_def
          populate_def apply_patch_def Let_def or_else_def split: option.splits)
qed

theorem limit_checks_follow_plan_edits_witness:
  "(\<exists>b. fst (checkListingLimit 500 (Some 7) demo_db) = Json 200 b
       \<and> remaining b = 2 \<and> allowed b)
   \<and> map_option listingsLimit
       (sub_of (snd (updatePlan 1
          \<lparr>patchDisplayName = None, patchPrice = None, patchDuration = None,
           patchFeatures = Some ((features demo_plan)\<lparr>maxListings := 3\<rparr>),
           patchIsActive = None\<rparr> demo_db)) 7) = Some 5
   \<and> (\<exists>b. fst (checkListingLimit 500 (Some 7)
              (snd (updatePlan 1
                 \<lparr>patchDisplayName = None, patchPrice = None, patchDuration = None,
                  patchFeatures = Some ((features demo_plan)\<lparr>maxListings := 3\<rparr>),
                  patchIsActive = None\<rparr> demo_db))) = Json 200 b
       \<and> remaining b = 0 \<and> \<not> allowed b)"
proof -
  let ?f = "(features demo_plan)\<lparr>maxListings := 3\<rparr>"
  let ?body = "\<lparr>patchDisplayName = None, patchPrice = None, patchDuration = None,
                patchFeatures = Some ?f, patchIsActive = None\<rparr>"
  have u: "users demo_db 7 =
             Some \<lparr>role = Institute, createdAt = 0, subscription = Some demo_sub\<rparr>"
    by (simp add: demo_db_def)
  have s: "subscription \<lparr>role = Institute, createdAt = 0, subscription = Some demo_sub\<rparr>
             = Some demo_sub"
    by simp
  have pid: "planId demo_sub = Some 1" by (simp add: demo_sub_def)
  have p: "plans demo_db 1 = Some demo_plan" by (simp add: demo_db_def)
  have a: "status demo_sub = Active" by (simp add: demo_sub_def)
  have e: "endDate demo_sub = Some 1000" by (simp add: demo_sub_def)
  have n: "(500::int) \<le> 1000" by simp
  have v: "patch_valid ?body" by (simp add: patch_valid_def demo_plan_def)
  have f: "patchFeatures ?body = Some ?f" by simp
  have before: "\<exists>b. fst (checkListingLimit 500 (Some 7) demo_db) = Json 200 b
       \<and> remaining b = 2 \<and> allowed b"
    by (simp add: checkListingLimit_def populate_def demo_defs or_else_def)
  have vals: "listingsUsed demo_sub = 3" "listingsLimit demo_sub = 5" "maxListings ?f = 3"
    by (simp_all add: demo_sub_def)
  from limit_checks_follow_plan_edits [OF u s pid p a e n v f] vals before
  show ?thesis by auto
qed

text \<open>
  The same holds for a limit that the administrator sets at assignment: the custom
  limit of 50 is stored in the subscription, and the listing check still meters
  against the plan's 5.
\<close>

lemma assigned_custom_limit_not_metered:
  "map_option listingsLimit
     (sub_of (snd (assignSubscription 0 9 1 30 (Some 50) None None demo_db)) 9) = Some 50
   \<and> (\<exists>b. fst (checkListingLimit 10 (Some 9)
              (snd (assignSubscription 0 9 1 30 (Some 50) None None demo_db))) = Json 200 b
          \<and> remaining b = 5 \<and> allowed b)"
  by (simp add: assignSubscription_def checkListingLimit_def populate_def save_user_def
        sub_of_def or_opt_def or_str_def or_else_def msPerDay_def Let_def demo_db_def
        demo_plan_def)

subsection \<open>Plan changes\<close>

text \<open>
  Claim C5. Both plan changes set the plan reference, copy the three limits from
  the new plan, stamp the start date with \<open>now\<close> and the end date with \<open>now\<close> plus
  the plan's duration in days, set the status to \<open>active\<close> and the payment status
  to \<open>pending\<close> for a priced plan and \<open>completed\<close> for a free one. Approving a
  pending request also resets the three usage counters to 0; the administrator's
  \<^verbatim>\<open>changePlan\<close> leaves the three counters as they were.
\<close>

theorem changePlan_keeps_usage_counters:
  assumes "users d uid = Some u" and "subscription u = Some s" and "plans d pid = Some p"
  shows "(\<exists>s'. sub_of (snd (changePlan now uid pid nt d)) uid = Some s'
            \<and> planId s' = Some pid \<and> status s' = Active
            \<and> paymentStatus s' = (if price p > 0 then PaymentPending else PaymentCompleted)
            \<and> startDate s' = Some now \<and> endDate s' = Some (now + duration p * msPerDay)
            \<and> listingsLimit s' = maxListings (features p)
            \<and> jobPostsLimit s' = maxJobPosts (features p)
            \<and> browseCountLimit s' = maxBrowsesPerMonth (features p)
            \<and> listingsUsed s' = listingsUsed s
            \<and> jobPostsUsed s' = jobPostsUsed s
            \<and> browseCount s' = browseCount s)
       \<and> (\<forall>r. find (\<lambda>r. requestId r = rid) (requests d) = Some r
              \<and> requestStatus r = Pending \<and> userId r = uid \<and> requestedPlanId r = pid \<longrightarrow>
            (\<exists>s'. sub_of (snd (updateSubscriptionRequest now rid Approved adm d)) uid = Some s'
               \<and> planId s' = Some pid \<and> status s' = Active
               \<and> paymentStatus s' = (if price p > 0 then PaymentPending else PaymentCompleted)
               \<and> startDate s' = Some now \<and> endDate s' = Some (now + duration p * msPerDay)
               \<and> listingsLimit s' = maxListings (features p)
               \<and> jobPostsLimit s' = maxJobPosts (features p)
               \<and> browseCountLimit s' = maxBrowsesPerMonth (features p)
               \<and> listingsUsed s' = 0 \<and> jobPostsUsed s' = 0 \<and> browseCount s' = 0))"
proof (intro conjI allI impI)
  show "\<exists>s'. sub_of (snd (changePlan now uid pid nt d)) uid = Some s'
            \<and> planId s' = Some pid \<and> status s' = Active
            \<and> paymentStatus s' = (if price p > 0 then PaymentPending else PaymentCompleted)
            \<and> startDate s' = Some now \<and> endDate s' = Some (now + duration p * msPerDay)
            \<and> listingsLimit s' = maxListings (features p)
            \<and> jobPostsLimit s' = maxJobPosts (features p)
            \<and> browseCountLimit s' = maxBrowsesPerMonth (features p)
            \<and> listingsUsed s' = listingsUsed s
            \<and> jobPostsUsed s' = jobPostsUsed s
            \<and> browseCount s' = browseCount s"
    using assms by (simp add: changePlan_def sub_of_def save_user_def Let_def)
next
  fix r
  assume "find (\<lambda>r. requestId r = rid) (requests d) = Some r
              \<and> requestStatus r = Pending \<and> userId r = uid \<and> requestedPlanId r = pid"
  with assms
  show "\<exists>s'. sub_of (snd (updateSubscriptionRequest now rid Approved adm d)) uid = Some s'
               \<and> planId s' = Some pid \<and> status s' = Active
               \<and> paymentStatus s' = (if price p > 0 then PaymentPending else PaymentCompleted)
               \<and> startDate s' = Some now \<and> endDate s' = Some (now + duration p * msPerDay)
               \<and> listingsLimit s' = maxListings (features p)
               \<and> jobPostsLimit s' = maxJobPosts (features p)
               \<and> browseCountLimit s' = maxBrowsesPerMonth (features p)
               \<and> listingsUsed s' = 0 \<and> jobPostsUsed s' = 0 \<and> browseCount s' = 0"
    by (simp add: updateSubscriptionRequest_def sub_of_def save_user_def save_request_def
          Let_def)
qed

theorem changePlan_keeps_usage_counters_witness:
  "(\<exists>s'. sub_of (snd (changePlan 500 7 2 None
              (demo_db\<lparr>requests :=
                 [\<lparr>requestId = 0, userId = 7, currentPlanId = 1, requestedPlanId = 2,
                   requestType = Upgrade, requestStatus = Pending, adminNotes = None,
                   userNotes = None, updatedAt = None\<rparr>]\<rparr>))) 7 = Some s'
       \<and> status s' = Active \<and> listingsLimit s' = 50
       \<and> listingsUsed s' = 3 \<and> jobPostsUsed s' = 1 \<and> browseCount s' = 4)
   \<and> (\<exists>s'. sub_of (snd (updateSubscriptionRequest 500 0 Approved None
              (demo_db\<lparr>requests :=
                 [\<lparr>requestId = 0, userId = 7, currentPlanId = 1, requestedPlanId = 2,
                   requestType = Upgrade, requestStatus = Pending, adminNotes = None,
                   userNotes = None, updatedAt = None\<rparr>]\<rparr>))) 7 = Some s'
       \<and> status s' = Active \<and> listingsLimit s' = 50
       \<and> listingsUsed s' = 0 \<and> jobPostsUsed s' = 0 \<and> browseCount s' = 0)"
proof -
  let ?r = "\<lparr>requestId = 0, userId = 7, currentPlanId = 1, requestedPlanId = 2,
             requestType = Upgrade, requestStatus = Pending, adminNotes = None,
             userNotes = None, updatedAt = None\<rparr>"
  let ?d = "demo_db\<lparr>requests := [?r]\<rparr>"
  have u: "users ?d 7 =
             Some \<lparr>role = Institute, createdAt = 0, subscription = Some demo_sub\<rparr>"
    by (simp add: demo_db_def)
  have s: "subscription \<lparr>role = Institute, createdAt = 0, subscription = Some demo_sub\<rparr>
             = Some demo_sub"
    by simp
  have p: "plans ?d 2 = Some demo_plan_unlimited" by (simp add: demo_db_def)
  have r: "find (\<lambda>r. requestId r = 0) (requests ?d) = Some ?r
             \<and> requestStatus ?r = Pending \<and> userId ?r = 7 \<and> requestedPlanId ?r = 2"
    by simp
  have v: "listingsUsed demo_sub = 3" "jobPostsUsed demo_sub = 1" "browseCount demo_sub = 4"
    "maxListings (features demo_plan_unlimited) = 50"
    by (simp_all add: demo_sub_def demo_plan_unlimited_def)
  from changePlan_keeps_usage_counters
         [OF u s p, where now = 500 and nt = None and rid = 0 and adm = None]
  have c: "(\<exists>s'. sub_of (snd (changePlan 500 7 2 None ?d)) 7 = Some s'
             \<and> status s' = Active \<and> listingsLimit s' = maxListings (features demo_plan_unlimited)
             \<and> listingsUsed s' = listingsUsed demo_sub \<and> jobPostsUsed s' = jobPostsUsed demo_sub
             \<and> browseCount s' = browseCount demo_sub)"
    and a: "\<forall>r. find (\<lambda>r. requestId r = 0) (requests ?d) = Some r
              \<and> requestStatus r = Pending \<and> userId r = 7 \<and> requestedPlanId r = 2 \<longrightarrow>
            (\<exists>s'. sub_of (snd (updateSubscriptionRequest 500 0 Approved None ?d)) 7 = Some s'
               \<and> status s' = Active
               \<and> listingsLimit s' = maxListings (features demo_plan_unlimited)
               \<and> listingsUsed s' = 0 \<and> jobPostsUsed s' = 0 \<and> browseCount s' = 0)"
    by blast+
  from a r
  have "\<exists>s'. sub_of (snd (updateSubscriptionRequest 500 0 Approved None ?d)) 7 = Some s'
               \<and> status s' = Active
               \<and> listingsLimit s' = maxListings (features demo_plan_unlimited)
               \<and> listingsUsed s' = 0 \<and> jobPostsUsed s' = 0 \<and> browseCount s' = 0"
    by blast
  with c show ?thesis unfolding v by blast
qed

end
